theory Spec2Isabelle
  imports Complex_Main
begin

section \<open>The view-line layout of the editor part (katetextlayout.cpp)\<close>

text \<open>
  A \<open>KateTextLayout\<close> is a view onto one view line (one wrapped segment) of a
  \<open>KateLineLayout\<close>. The C++ \<open>int\<close> is modelled by \<open>int\<close>: no query below
  multiplies, and signed overflow of the sums is undefined in C++, so the model speaks
  about the runs whose coordinates fit.
\<close>

subsection \<open>Toolkit value types\<close>

text \<open>
  \<open>QTextLine\<close> and \<open>KTextEditor::Cursor\<close> belong to the toolkit, not to this
  repository. Of a \<open>QTextLine\<close> the code reads \<open>textStart()\<close>, \<open>textLength()\<close> and
  \<open>naturalTextWidth()\<close>. The toolkit reports the width as a \<open>qreal\<close>, taken here as a
  real number (the sums are exact; the rounding of machine arithmetic is left out). Where
  the code stores such a number in an \<open>int\<close> or returns it as one, C++ drops the
  fraction: \<open>qreal_to_int\<close> truncates toward zero. Of a cursor the code reads \<open>line()\<close>
  and \<open>column()\<close>.
\<close>

record QTextLine =
  textStart :: int
  textLength :: int
  naturalTextWidth :: real

definition qreal_to_int :: "real \<Rightarrow> int" where
  "qreal_to_int x = (if 0 \<le> x then \<lfloor>x\<rfloor> else \<lceil>x\<rceil>)"

text \<open>The default-constructed \<open>QTextLine\<close> that \<open>m_textLayout\<close> holds when the
  constructor does not assign it. No query reads it on an invalid instance.\<close>

definition QTextLine_null :: QTextLine where
  "QTextLine_null = \<lparr>textStart = 0, textLength = 0, naturalTextWidth = 0\<rparr>"

record Cursor =
  cursor_line :: int
  cursor_column :: int

subsection \<open>The owning line layout\<close>

text \<open>
  Modelled from the spec: \<open>KateLineLayout\<close> (katelinerange.h and its implementation are
  not among the sources). The spec gives it a logical and a virtual line index, an ordered
  sequence of shaped runs, a dirty bit per run, a horizontal shift for continuation runs,
  and a validity of its own. \<open>viewLineCount()\<close> is the number of runs,
  \<open>layout()->lineAt(i)\<close> is run \<open>i\<close>.
\<close>

record KateLineLayout =
  ll_isValid :: bool
  ll_line :: int
  ll_virtualLine :: int
  ll_shiftX :: int
  ll_layout :: "QTextLine list"
  ll_dirty :: "int \<Rightarrow> bool"

definition viewLineCount :: "KateLineLayout \<Rightarrow> int" where
  "viewLineCount l = int (length (ll_layout l))"

definition lineAt :: "KateLineLayout \<Rightarrow> int \<Rightarrow> QTextLine" where
  "lineAt l i = (if 0 \<le> i \<and> i < viewLineCount l then ll_layout l ! nat i else QTextLine_null)"

text \<open>
  Modelled from the spec: \<open>KateLineLayout::isDirty\<close> is true unconditionally on an invalid
  layout; \<open>KateLineLayout::setDirty\<close> marks or clears the dirty state of one run and
  returns the previous value, and is a no-op reporting dirty on an invalid layout.
\<close>

definition KateLineLayout_isDirty :: "KateLineLayout \<Rightarrow> int \<Rightarrow> bool" where
  "KateLineLayout_isDirty l i = (if \<not> ll_isValid l then True else ll_dirty l i)"

definition KateLineLayout_setDirty :: "KateLineLayout \<Rightarrow> int \<Rightarrow> bool \<Rightarrow> bool \<times> KateLineLayout" where
  "KateLineLayout_setDirty l i dirty =
     (if \<not> ll_isValid l then (True, l)
      else (ll_dirty l i, l\<lparr>ll_dirty := (ll_dirty l)(i := dirty)\<rparr>))"

subsection \<open>The store and the text layout\<close>

text \<open>
  \<open>KateLineLayoutPtr\<close> is a shared pointer: it is null or it refers to a line layout that
  the pointer itself keeps alive, and that others may change. The store maps every
  address to the line layout found there; \<open>deref\<close> is \<open>operator->\<close>, which every query
  applies only after \<open>isValid\<close> has found the pointer non-null.
\<close>

type_synonym addr = nat
type_synonym KateLineLayoutPtr = "addr option"
type_synonym heap = "addr \<Rightarrow> KateLineLayout"

definition deref :: "heap \<Rightarrow> KateLineLayoutPtr \<Rightarrow> KateLineLayout" where
  "deref h p = h (the p)"

record KateTextLayout =
  m_lineLayout :: KateLineLayoutPtr
  m_viewLine :: int
  m_startX :: int
  m_textLayout :: QTextLine

definition isValid :: "heap \<Rightarrow> KateTextLayout \<Rightarrow> bool" where
  "isValid h t =
     (m_lineLayout t \<noteq> None \<and> ll_isValid (deref h (m_lineLayout t)) \<and> m_viewLine t \<ge> 0
      \<and> m_viewLine t < viewLineCount (deref h (m_lineLayout t)))"

definition KateTextLayout_new :: "heap \<Rightarrow> KateLineLayoutPtr \<Rightarrow> int \<Rightarrow> KateTextLayout" where
  "KateTextLayout_new h line viewLine =
     (let t = \<lparr>m_lineLayout = line, m_viewLine = viewLine,
               m_startX = (if viewLine \<noteq> 0 then - 1 else 0),
               m_textLayout = QTextLine_null\<rparr>
      in if isValid h t then t\<lparr>m_textLayout := lineAt (deref h line) viewLine\<rparr> else t)"

definition line :: "heap \<Rightarrow> KateTextLayout \<Rightarrow> int" where
  "line h t = (if \<not> isValid h t then - 1 else ll_line (deref h (m_lineLayout t)))"

definition virtualLine :: "heap \<Rightarrow> KateTextLayout \<Rightarrow> int" where
  "virtualLine h t = (if \<not> isValid h t then - 1 else ll_virtualLine (deref h (m_lineLayout t)))"

definition viewLine :: "heap \<Rightarrow> KateTextLayout \<Rightarrow> int" where
  "viewLine h t = (if \<not> isValid h t then 0 else m_viewLine t)"

definition lineLayout :: "KateTextLayout \<Rightarrow> QTextLine" where
  "lineLayout t = m_textLayout t"

definition startCol :: "heap \<Rightarrow> KateTextLayout \<Rightarrow> int" where
  "startCol h t = (if \<not> isValid h t then 0 else textStart (lineLayout t))"

definition endCol :: "heap \<Rightarrow> KateTextLayout \<Rightarrow> int" where
  "endCol h t = (if \<not> isValid h t then 0 else startCol h t + textLength (m_textLayout t))"

definition length_tl :: "heap \<Rightarrow> KateTextLayout \<Rightarrow> int" where
  "length_tl h t = (if \<not> isValid h t then 0 else textLength (m_textLayout t))"

definition isEmpty :: "heap \<Rightarrow> KateTextLayout \<Rightarrow> bool" where
  "isEmpty h t = (if \<not> isValid h t then True else startCol h t = 0 \<and> endCol h t = 0)"

definition wrap :: "heap \<Rightarrow> KateTextLayout \<Rightarrow> bool" where
  "wrap h t =
     (if \<not> isValid h t then False
      else viewLine h t < viewLineCount (deref h (m_lineLayout t)) - 1)"

definition width :: "heap \<Rightarrow> KateTextLayout \<Rightarrow> int" where
  "width h t = (if \<not> isValid h t then 0 else qreal_to_int (naturalTextWidth (m_textLayout t)))"

text \<open>
  \<open>endX\<close> reads the field \<open>m_startX\<close> as it stands; it does not call \<open>startX\<close>. The
  sum of the field and the width is a \<open>qreal\<close>, converted by the return.
\<close>

definition endX :: "heap \<Rightarrow> KateTextLayout \<Rightarrow> int" where
  "endX h t =
     (if \<not> isValid h t then 0
      else qreal_to_int (of_int (m_startX t) + naturalTextWidth (m_textLayout t)))"

text \<open>
  \<open>startX\<close> is \<open>const\<close> but writes the \<open>mutable\<close> field \<open>m_startX\<close>, so it returns the
  instance along with the value. Its loop adds the width of run \<open>i\<close> to the field for
  every \<open>i\<close> below \<open>viewLine()\<close>, starting from whatever the field holds; each
  \<open>+=\<close> adds in \<open>qreal\<close> and converts the sum back to the \<open>int\<close> field.
\<close>

function startX_loop :: "heap \<Rightarrow> KateTextLayout \<Rightarrow> int \<Rightarrow> KateTextLayout" where
  "startX_loop h t i =
     (if i < viewLine h t
      then startX_loop h
             (t\<lparr>m_startX :=
                  qreal_to_int (of_int (m_startX t)
                                + naturalTextWidth (lineAt (deref h (m_lineLayout t)) i))\<rparr>)
             (i + 1)
      else t)"
  by pat_completeness auto
termination
  by (relation "measure (\<lambda>(h, t, i). nat (viewLine h t - i))")
     (auto simp: viewLine_def isValid_def)

definition startX :: "heap \<Rightarrow> KateTextLayout \<Rightarrow> int \<times> KateTextLayout" where
  "startX h t =
     (if \<not> isValid h t then (0, t)
      else let t' = (if m_startX t = - 1 then startX_loop h t 0 else t)
           in (m_startX t', t'))"

definition xOffset :: "heap \<Rightarrow> KateTextLayout \<Rightarrow> int \<times> KateTextLayout" where
  "xOffset h t =
     (if \<not> isValid h t then (0, t)
      else let (x, t') = startX h t
           in (if x \<noteq> 0 then ll_shiftX (deref h (m_lineLayout t')) else 0, t'))"

text \<open>
  What the loop of \<open>startX\<close> does to the field, told on the list of the widths it
  passes: one converted addition per width. It serves to state the loop in closed form.
\<close>

fun add_widths :: "int \<Rightarrow> real list \<Rightarrow> int" where
  "add_widths x [] = x"
| "add_widths x (w # ws) = add_widths (qreal_to_int (of_int x + w)) ws"

definition isDirty :: "heap \<Rightarrow> KateTextLayout \<Rightarrow> bool" where
  "isDirty h t =
     (if \<not> isValid h t then True
      else KateLineLayout_isDirty (deref h (m_lineLayout t)) (viewLine h t))"

text \<open>\<open>setDirty\<close> is the one member that writes through the pointer: it returns the
  store along with its result.\<close>

definition setDirty :: "heap \<Rightarrow> KateTextLayout \<Rightarrow> bool \<Rightarrow> bool \<times> heap" where
  "setDirty h t dirty =
     (if \<not> isValid h t then (True, h)
      else let (r, l') = KateLineLayout_setDirty (deref h (m_lineLayout t)) (viewLine h t) dirty
           in (r, h(the (m_lineLayout t) := l')))"

definition includesCursor :: "heap \<Rightarrow> KateTextLayout \<Rightarrow> Cursor \<Rightarrow> bool" where
  "includesCursor h t realCursor =
     (cursor_line realCursor = line h t \<and> cursor_column realCursor \<ge> startCol h t
      \<and> (\<not> wrap h t \<or> cursor_column realCursor < endCol h t))"

definition op_gt :: "heap \<Rightarrow> KateTextLayout \<Rightarrow> Cursor \<Rightarrow> bool" where
  "op_gt h r c = (line h r > cursor_line c \<or> endCol h r > cursor_column c)"

definition op_ge :: "heap \<Rightarrow> KateTextLayout \<Rightarrow> Cursor \<Rightarrow> bool" where
  "op_ge h r c = (line h r > cursor_line c \<or> endCol h r \<ge> cursor_column c)"

definition op_lt :: "heap \<Rightarrow> KateTextLayout \<Rightarrow> Cursor \<Rightarrow> bool" where
  "op_lt h r c = (line h r < cursor_line c \<or> startCol h r < cursor_column c)"

definition op_le :: "heap \<Rightarrow> KateTextLayout \<Rightarrow> Cursor \<Rightarrow> bool" where
  "op_le h r c = (line h r < cursor_line c \<or> startCol h r \<le> cursor_column c)"

definition start :: "heap \<Rightarrow> KateTextLayout \<Rightarrow> Cursor" where
  "start h t = \<lparr>cursor_line = line h t, cursor_column = startCol h t\<rparr>"

definition end_tl :: "heap \<Rightarrow> KateTextLayout \<Rightarrow> Cursor" where
  "end_tl h t = \<lparr>cursor_line = line h t, cursor_column = endCol h t\<rparr>"

definition kateLineLayout :: "KateTextLayout \<Rightarrow> KateLineLayoutPtr" where
  "kateLineLayout t = m_lineLayout t"

subsection \<open>The members as calls on a store and an instance\<close>

text \<open>
  To speak about all members at once, a call names the member and its arguments, and
  \<open>call\<close> runs it on a store and an instance, returning the answer with the store and
  the instance as the member leaves them. Members that write nothing hand both back.
  \<open>debugOutput\<close>, which only prints, is not a call.
\<close>

datatype query =
    Q_isDirty | Q_setDirty bool | Q_includesCursor Cursor | Q_xOffset
  | Q_gt Cursor | Q_ge Cursor | Q_lt Cursor | Q_le Cursor
  | Q_isValid | Q_line | Q_virtualLine | Q_viewLine | Q_lineLayout | Q_kateLineLayout
  | Q_startCol | Q_start | Q_endCol | Q_end | Q_length | Q_isEmpty | Q_wrap
  | Q_startX | Q_endX | Q_width

datatype answer =
    A_bool bool | A_int int | A_cursor Cursor | A_textLine QTextLine | A_ptr KateLineLayoutPtr

fun call :: "query \<Rightarrow> heap \<Rightarrow> KateTextLayout \<Rightarrow> answer \<times> heap \<times> KateTextLayout" where
  "call Q_isDirty h t = (A_bool (isDirty h t), h, t)"
| "call (Q_setDirty dirty) h t = (A_bool (fst (setDirty h t dirty)), snd (setDirty h t dirty), t)"
| "call (Q_includesCursor c) h t = (A_bool (includesCursor h t c), h, t)"
| "call Q_xOffset h t = (A_int (fst (xOffset h t)), h, snd (xOffset h t))"
| "call (Q_gt c) h t = (A_bool (op_gt h t c), h, t)"
| "call (Q_ge c) h t = (A_bool (op_ge h t c), h, t)"
| "call (Q_lt c) h t = (A_bool (op_lt h t c), h, t)"
| "call (Q_le c) h t = (A_bool (op_le h t c), h, t)"
| "call Q_isValid h t = (A_bool (isValid h t), h, t)"
| "call Q_line h t = (A_int (line h t), h, t)"
| "call Q_virtualLine h t = (A_int (virtualLine h t), h, t)"
| "call Q_viewLine h t = (A_int (viewLine h t), h, t)"
| "call Q_lineLayout h t = (A_textLine (lineLayout t), h, t)"
| "call Q_kateLineLayout h t = (A_ptr (kateLineLayout t), h, t)"
| "call Q_startCol h t = (A_int (startCol h t), h, t)"
| "call Q_start h t = (A_cursor (start h t), h, t)"
| "call Q_endCol h t = (A_int (endCol h t), h, t)"
| "call Q_end h t = (A_cursor (end_tl h t), h, t)"
| "call Q_length h t = (A_int (length_tl h t), h, t)"
| "call Q_isEmpty h t = (A_bool (isEmpty h t), h, t)"
| "call Q_wrap h t = (A_bool (wrap h t), h, t)"
| "call Q_startX h t = (A_int (fst (startX h t)), h, snd (startX h t))"
| "call Q_endX h t = (A_int (endX h t), h, t)"
| "call Q_width h t = (A_int (width h t), h, t)"

subsection \<open>A wrapped line to compute on\<close>

text \<open>
  Logical line 3, wrapped into three runs: columns 0 to 5, 10 pixels wide; columns 5 to
  10, 20 pixels wide; columns 10 to 12, 7 pixels wide. Continuation runs are shifted by
  4 pixels. The store holds this line layout at every address.
\<close>

definition ex_layout :: KateLineLayout where
  "ex_layout =
     \<lparr>ll_isValid = True, ll_line = 3, ll_virtualLine = 3, ll_shiftX = 4,
      ll_layout = [\<lparr>textStart = 0, textLength = 5, naturalTextWidth = 10\<rparr>,
                   \<lparr>textStart = 5, textLength = 5, naturalTextWidth = 20\<rparr>,
                   \<lparr>textStart = 10, textLength = 2, naturalTextWidth = 7\<rparr>],
      ll_dirty = (\<lambda>i. False)\<rparr>"

definition ex_heap :: heap where
  "ex_heap = (\<lambda>a. ex_layout)"

definition ex_run0 :: KateTextLayout where
  "ex_run0 = KateTextLayout_new ex_heap (Some 0) 0"

definition ex_run1 :: KateTextLayout where
  "ex_run1 = KateTextLayout_new ex_heap (Some 0) 1"

definition ex_run2 :: KateTextLayout where
  "ex_run2 = KateTextLayout_new ex_heap (Some 0) 2"



section \<open>Validity and construction\<close>

lemma isValid_owner: "isValid h t \<Longrightarrow> \<exists>a. m_lineLayout t = Some a"
  by (auto simp: isValid_def)

lemma isValid_cache_irrelevant [simp]: "isValid h (t\<lparr>m_startX := x\<rparr>) = isValid h t"
  by (simp add: isValid_def)

lemma isValid_textLayout_irrelevant [simp]: "isValid h (t\<lparr>m_textLayout := q\<rparr>) = isValid h t"
  by (simp add: isValid_def)

lemma new_fields:
  "m_lineLayout (KateTextLayout_new h p v) = p"
  "m_viewLine (KateTextLayout_new h p v) = v"
  "m_startX (KateTextLayout_new h p v) = (if v \<noteq> 0 then - 1 else 0)"
  by (simp_all add: KateTextLayout_new_def Let_def)

lemma new_valid_iff:
  "isValid h (KateTextLayout_new h p v) \<longleftrightarrow>
     (\<exists>a. p = Some a \<and> ll_isValid (h a) \<and> 0 \<le> v \<and> v < viewLineCount (h a))"
  by (auto simp: KateTextLayout_new_def Let_def isValid_def deref_def)

lemma new_textLayout:
  "isValid h (KateTextLayout_new h (Some a) v) \<Longrightarrow>
     m_textLayout (KateTextLayout_new h (Some a) v) = ll_layout (h a) ! nat v"
  by (auto simp: KateTextLayout_new_def Let_def isValid_def deref_def lineAt_def)

lemma shiftX_layout [simp]:
  "ll_layout ((h(a := (h a)\<lparr>ll_shiftX := s\<rparr>)) b) = ll_layout (h b)"
  "ll_isValid ((h(a := (h a)\<lparr>ll_shiftX := s\<rparr>)) b) = ll_isValid (h b)"
  by simp_all

lemma isValid_shiftX [simp]:
  "isValid (h(a := (h a)\<lparr>ll_shiftX := s\<rparr>)) t = isValid h t"
  by (simp add: isValid_def deref_def viewLineCount_def)

section \<open>The loop of startX in closed form\<close>

declare startX_loop.simps [simp del]

lemma viewLine_cache_irrelevant [simp]: "viewLine h (t\<lparr>m_startX := x\<rparr>) = viewLine h t"
  by (simp add: viewLine_def)

lemma add_widths_foldl:
  "add_widths x (map f ks) = foldl (\<lambda>y k. qreal_to_int (of_int y + f k)) x ks"
  by (induction ks arbitrary: x) simp_all

lemma startX_loop_closed:
  "startX_loop h t i =
     t\<lparr>m_startX :=
         add_widths (m_startX t)
           (map (\<lambda>k. naturalTextWidth (lineAt (deref h (m_lineLayout t)) k))
                [i..viewLine h t - 1])\<rparr>"
proof (induction h t i rule: startX_loop.induct)
  case (1 h t i)
  show ?case
  proof (cases "i < viewLine h t")
    case True
    then have u: "[i..viewLine h t - 1] = i # [i + 1..viewLine h t - 1]"
      by (simp add: upto_rec1)
    show ?thesis
      using True "1.IH" [OF True] by (subst startX_loop.simps) (simp add: u)
  next
    case False
    then show ?thesis by (subst startX_loop.simps) simp
  qed
qed

lemma runs_upto_take:
  "n \<le> length xs \<Longrightarrow> map (\<lambda>k. xs ! nat k) [0..int n - 1] = take n xs"
proof (induction n)
  case 0
  then show ?case by simp
next
  case (Suc n)
  then have "[0..int (Suc n) - 1] = [0..int n - 1] @ [int n]"
    by (simp add: upto_rec2)
  with Suc show ?case by (simp add: take_Suc_conv_app_nth)
qed

lemma lineAt_upto_take:
  assumes "0 \<le> v" "v \<le> viewLineCount l"
  shows "map (\<lambda>k. naturalTextWidth (lineAt l k)) [0..v - 1]
           = map naturalTextWidth (take (nat v) (ll_layout l))"
proof -
  have "map (\<lambda>k. naturalTextWidth (lineAt l k)) [0..v - 1]
          = map (\<lambda>k. naturalTextWidth (ll_layout l ! nat k)) [0..v - 1]"
    using assms by (intro map_cong refl) (auto simp: lineAt_def)
  also have "\<dots> = map naturalTextWidth (map (\<lambda>k. ll_layout l ! nat k) [0..int (nat v) - 1])"
    using assms by simp
  also have "\<dots> = map naturalTextWidth (take (nat v) (ll_layout l))"
    using assms by (subst runs_upto_take) (auto simp: viewLineCount_def)
  finally show ?thesis .
qed

lemma startX_value:
  assumes "isValid h t" "m_lineLayout t = Some a"
  shows "startX h t =
     (let x = (if m_startX t = - 1
               then add_widths (- 1)
                      (map naturalTextWidth (take (nat (m_viewLine t)) (ll_layout (h a))))
               else m_startX t)
      in (x, t\<lparr>m_startX := x\<rparr>))"
proof -
  have v: "viewLine h t = m_viewLine t" "0 \<le> m_viewLine t" "m_viewLine t \<le> viewLineCount (h a)"
    "deref h (m_lineLayout t) = h a"
    using assms by (auto simp: viewLine_def isValid_def deref_def)
  show ?thesis
    using assms v lineAt_upto_take [OF v(2,3)]
    by (simp add: startX_def startX_loop_closed Let_def)
qed


subsection \<open>The converted additions against the whole pixels of the widths\<close>




section \<open>What the members leave unchanged\<close>

lemma startX_fields:
  "m_lineLayout (snd (startX h t)) = m_lineLayout t"
  "m_viewLine (snd (startX h t)) = m_viewLine t"
  "m_textLayout (snd (startX h t)) = m_textLayout t"
  by (simp_all add: startX_def startX_loop_closed Let_def)

lemma xOffset_instance: "snd (xOffset h t) = snd (startX h t)"
  by (simp add: xOffset_def startX_def Let_def split: prod.splits)

lemma setDirty_frame:
  "(\<forall>b. m_lineLayout t \<noteq> Some b \<longrightarrow> snd (setDirty h t d) b = h b)
   \<and> (\<forall>b. m_lineLayout t = Some b \<longrightarrow>
         snd (setDirty h t d) b = (h b)\<lparr>ll_dirty := ll_dirty (snd (setDirty h t d) b)\<rparr>
         \<and> (\<forall>k. k \<noteq> m_viewLine t \<longrightarrow> ll_dirty (snd (setDirty h t d) b) k = ll_dirty (h b) k))"
  by (auto simp: setDirty_def KateLineLayout_setDirty_def deref_def viewLine_def isValid_def)

section \<open>The example line, evaluated\<close>

lemma ex_run0_eq: "ex_run0 = \<lparr>m_lineLayout = Some 0, m_viewLine = 0, m_startX = 0,
   m_textLayout = \<lparr>textStart = 0, textLength = 5, naturalTextWidth = 10\<rparr>\<rparr>"
  by (simp add: ex_run0_def KateTextLayout_new_def isValid_def deref_def ex_heap_def
        ex_layout_def viewLineCount_def lineAt_def Let_def)

lemma ex_run1_eq: "ex_run1 = \<lparr>m_lineLayout = Some 0, m_viewLine = 1, m_startX = - 1,
   m_textLayout = \<lparr>textStart = 5, textLength = 5, naturalTextWidth = 20\<rparr>\<rparr>"
  by (simp add: ex_run1_def KateTextLayout_new_def isValid_def deref_def ex_heap_def
        ex_layout_def viewLineCount_def lineAt_def Let_def)

lemma ex_run2_eq: "ex_run2 = \<lparr>m_lineLayout = Some 0, m_viewLine = 2, m_startX = - 1,
   m_textLayout = \<lparr>textStart = 10, textLength = 2, naturalTextWidth = 7\<rparr>\<rparr>"
  by (simp add: ex_run2_def KateTextLayout_new_def isValid_def deref_def ex_heap_def
        ex_layout_def viewLineCount_def lineAt_def Let_def)

lemma ex_valid: "isValid ex_heap ex_run0" "isValid ex_heap ex_run1" "isValid ex_heap ex_run2"
  by (simp_all add: ex_run0_eq ex_run1_eq ex_run2_eq isValid_def deref_def ex_heap_def
        ex_layout_def viewLineCount_def)

lemma ex_startX1: "startX ex_heap ex_run1 = (9, ex_run1\<lparr>m_startX := 9\<rparr>)"
  using startX_value [OF ex_valid(2), of 0]
  by (simp add: ex_run1_eq ex_heap_def ex_layout_def qreal_to_int_def)

lemma ex_startX2: "startX ex_heap ex_run2 = (29, ex_run2\<lparr>m_startX := 29\<rparr>)"
  using startX_value [OF ex_valid(3), of 0]
  by (simp add: ex_run2_eq ex_heap_def ex_layout_def qreal_to_int_def)

lemma ex_cols:
  "startCol ex_heap ex_run1 = 5" "endCol ex_heap ex_run1 = 10"
  "startCol ex_heap ex_run2 = 10" "endCol ex_heap ex_run2 = 12"
  "startCol ex_heap ex_run0 = 0" "endCol ex_heap ex_run0 = 5"
  by (simp_all add: startCol_def endCol_def lineLayout_def ex_valid)
     (simp_all add: ex_run0_eq ex_run1_eq ex_run2_eq)

lemma ex_lines:
  "line ex_heap ex_run0 = 3" "line ex_heap ex_run1 = 3" "line ex_heap ex_run2 = 3"
  by (simp_all add: line_def ex_valid)
     (simp_all add: deref_def ex_run0_eq ex_run1_eq ex_run2_eq ex_heap_def ex_layout_def)

lemma ex_wrap:
  "wrap ex_heap ex_run0" "wrap ex_heap ex_run1" "\<not> wrap ex_heap ex_run2"
  by (simp_all add: wrap_def viewLine_def isValid_def deref_def viewLineCount_def
        ex_run0_eq ex_run1_eq ex_run2_eq ex_heap_def ex_layout_def)

lemma ex_setDirty1:
  "setDirty ex_heap ex_run1 True
     = (False, ex_heap(0 := ex_layout\<lparr>ll_dirty := (\<lambda>i. False)(1 := True)\<rparr>))"
  by (simp add: setDirty_def ex_valid KateLineLayout_setDirty_def viewLine_def deref_def)
     (simp add: ex_run1_eq ex_heap_def ex_layout_def)


section \<open>Where a continuation run starts\<close>




section \<open>Validity\<close>

text \<open>
  C6. \<open>isValid()\<close> is true if and only if the owner pointer is non-null, the owning line
  layout is itself valid, and the view-line index lies in \<open>[0, viewLineCount())\<close>.
  So a layout freshly constructed from a valid line layout with an index in that range
  is valid.
\<close>

theorem isValid_iff:
  "(isValid h t \<longleftrightarrow>
      (\<exists>a. m_lineLayout t = Some a \<and> ll_isValid (h a)
           \<and> 0 \<le> m_viewLine t \<and> m_viewLine t < viewLineCount (h a)))
   \<and> (ll_isValid (h a) \<and> 0 \<le> v \<and> v < viewLineCount (h a)
        \<longrightarrow> isValid h (KateTextLayout_new h (Some a) v))"
proof -
  have "isValid h t \<longleftrightarrow>
      (\<exists>a. m_lineLayout t = Some a \<and> ll_isValid (h a)
           \<and> 0 \<le> m_viewLine t \<and> m_viewLine t < viewLineCount (h a))"
    by (auto simp: isValid_def deref_def)
  moreover have "ll_isValid (h a) \<and> 0 \<le> v \<and> v < viewLineCount (h a)
        \<longrightarrow> isValid h (KateTextLayout_new h (Some a) v)"
    by (simp add: new_valid_iff)
  ultimately show ?thesis by blast
qed

theorem isValid_iff_witness:
  "ll_isValid (ex_heap 0) \<and> (0::int) \<le> 1 \<and> 1 < viewLineCount (ex_heap 0)
   \<and> isValid ex_heap (KateTextLayout_new ex_heap (Some 0) 1)
   \<and> \<not> isValid ex_heap (KateTextLayout_new ex_heap (Some 0) 3)
   \<and> \<not> isValid ex_heap (KateTextLayout_new ex_heap None 0)"
  using isValid_iff [of ex_heap "KateTextLayout_new ex_heap (Some 0) 3" 0 1]
    isValid_iff [of ex_heap "KateTextLayout_new ex_heap None 0" 0 1]
  by (simp add: new_fields ex_heap_def ex_layout_def viewLineCount_def)

section \<open>Invalid instances\<close>

text \<open>
  C5. On an invalid layout the queries answer with fixed values, whatever the store
  holds: \<open>startCol\<close>, \<open>endCol\<close>, \<open>length\<close>, \<open>startX\<close>, \<open>endX\<close>, \<open>width\<close>,
  \<open>xOffset\<close> and \<open>viewLine\<close> give 0, \<open>wrap\<close> gives false, \<open>line\<close> and
  \<open>virtualLine\<close> give -1. A layout constructed with a null owner, an invalid owner, a
  negative index or an index of at least \<open>viewLineCount()\<close> is invalid.
\<close>

theorem invalid_defaults:
  "(\<not> isValid h t \<longrightarrow>
      startCol h t = 0 \<and> endCol h t = 0 \<and> length_tl h t = 0 \<and> fst (startX h t) = 0
      \<and> endX h t = 0 \<and> width h t = 0 \<and> fst (xOffset h t) = 0 \<and> viewLine h t = 0
      \<and> \<not> wrap h t \<and> line h t = - 1 \<and> virtualLine h t = - 1)
   \<and> (p = None \<or> \<not> ll_isValid (deref h p) \<or> v < 0 \<or> viewLineCount (deref h p) \<le> v
        \<longrightarrow> \<not> isValid h (KateTextLayout_new h p v))"
  by (auto simp: startCol_def endCol_def length_tl_def startX_def endX_def width_def
        xOffset_def viewLine_def wrap_def line_def virtualLine_def new_valid_iff deref_def)

theorem invalid_defaults_witness:
  "\<not> isValid ex_heap (KateTextLayout_new ex_heap (Some 0) 3)
   \<and> \<not> isValid ex_heap (KateTextLayout_new ex_heap (Some 0) (- 1))
   \<and> \<not> isValid ex_heap (KateTextLayout_new ex_heap None 0)
   \<and> fst (startX ex_heap (KateTextLayout_new ex_heap (Some 0) 3)) = 0
   \<and> endX ex_heap (KateTextLayout_new ex_heap (Some 0) (- 1)) = 0
   \<and> line ex_heap (KateTextLayout_new ex_heap None 0) = - 1"
proof -
  have a: "viewLineCount (deref ex_heap (Some 0)) \<le> 3"
    by (simp add: deref_def ex_heap_def ex_layout_def viewLineCount_def)
  have b: "(- 1 :: int) < 0" by simp
  from a b
    invalid_defaults [of ex_heap "KateTextLayout_new ex_heap (Some 0) 3" "Some 0" 3]
    invalid_defaults [of ex_heap "KateTextLayout_new ex_heap (Some 0) (- 1)" "Some 0" "- 1"]
    invalid_defaults [of ex_heap "KateTextLayout_new ex_heap None 0" None 0]
  show ?thesis by blast
qed

text \<open>
  C10. On an invalid layout \<open>isDirty()\<close>, \<open>setDirty(d)\<close> for either \<open>d\<close>, and
  \<open>isEmpty()\<close> return true, and \<open>setDirty\<close> leaves the store as it is.
\<close>

theorem invalid_dirty_empty:
  assumes "\<not> isValid h t"
  shows "isDirty h t \<and> fst (setDirty h t d) \<and> snd (setDirty h t d) = h \<and> isEmpty h t"
  using assms by (simp add: isDirty_def setDirty_def isEmpty_def)

theorem invalid_dirty_empty_witness:
  "\<not> isValid ex_heap (KateTextLayout_new ex_heap (Some 0) 3)
   \<and> isDirty ex_heap (KateTextLayout_new ex_heap (Some 0) 3)
   \<and> fst (setDirty ex_heap (KateTextLayout_new ex_heap (Some 0) 3) False)
   \<and> fst (setDirty ex_heap (KateTextLayout_new ex_heap (Some 0) 3) True)
   \<and> isEmpty ex_heap (KateTextLayout_new ex_heap (Some 0) 3)"
proof -
  have n: "\<not> isValid ex_heap (KateTextLayout_new ex_heap (Some 0) 3)"
    by (simp add: new_valid_iff ex_heap_def ex_layout_def viewLineCount_def)
  from n invalid_dirty_empty [OF n, of False] invalid_dirty_empty [OF n, of True]
  show ?thesis by simp
qed

section \<open>Cursor containment\<close>

text \<open>
  C2 (as amended). The claim bounds the column by \<open>endCol()\<close> on every run, inclusively
  on the final run of a line. The code bounds it only when the run wraps. What holds:
  on a valid layout, \<open>includesCursor(c)\<close> is true if and only if \<open>c\<close> is on the
  layout's line, its column is at least \<open>startCol()\<close>, and, when the run is not the last
  of its line, its column is below \<open>endCol()\<close>; on the last run every column from
  \<open>startCol()\<close> on is included.
\<close>

theorem includesCursor_iff:
  assumes "isValid h t" and "m_lineLayout t = Some a"
  shows "includesCursor h t c \<longleftrightarrow>
           cursor_line c = ll_line (h a) \<and> startCol h t \<le> cursor_column c
           \<and> (m_viewLine t < viewLineCount (h a) - 1 \<longrightarrow> cursor_column c < endCol h t)"
  using assms by (auto simp: includesCursor_def line_def wrap_def viewLine_def deref_def)

theorem includesCursor_iff_witness:
  "isValid ex_heap ex_run1 \<and> m_lineLayout ex_run1 = Some 0
   \<and> \<not> includesCursor ex_heap ex_run1 \<lparr>cursor_line = 3, cursor_column = 10\<rparr>
   \<and> includesCursor ex_heap ex_run1 \<lparr>cursor_line = 3, cursor_column = 9\<rparr>
   \<and> isValid ex_heap ex_run2 \<and> m_lineLayout ex_run2 = Some 0
   \<and> includesCursor ex_heap ex_run2 \<lparr>cursor_line = 3, cursor_column = 12\<rparr>"
proof -
  have p1: "m_lineLayout ex_run1 = Some 0" and p2: "m_lineLayout ex_run2 = Some 0"
    by (simp_all add: ex_run1_eq ex_run2_eq)
  have v: "m_viewLine ex_run1 = 1" "m_viewLine ex_run2 = 2" "viewLineCount (ex_heap 0) = 3"
    "ll_line (ex_heap 0) = 3"
    by (simp_all add: ex_run1_eq ex_run2_eq ex_heap_def ex_layout_def viewLineCount_def)
  from includesCursor_iff [OF ex_valid(2) p1, of "\<lparr>cursor_line = 3, cursor_column = 10\<rparr>"]
    includesCursor_iff [OF ex_valid(2) p1, of "\<lparr>cursor_line = 3, cursor_column = 9\<rparr>"]
    includesCursor_iff [OF ex_valid(3) p2, of "\<lparr>cursor_line = 3, cursor_column = 12\<rparr>"]
  show ?thesis by (simp add: ex_valid p1 p2 v ex_cols)
qed

text \<open>
  The claim C2 as stated fails on the last run of the example line, which covers columns
  10 to 12 and does not wrap: column 13 is beyond \<open>endCol()\<close> and is included.
\<close>

theorem includesCursor_past_end_counterexample:
  "isValid ex_heap ex_run2 \<and> \<not> wrap ex_heap ex_run2
   \<and> endCol ex_heap ex_run2 < cursor_column \<lparr>cursor_line = 3, cursor_column = 13\<rparr>
   \<and> includesCursor ex_heap ex_run2 \<lparr>cursor_line = 3, cursor_column = 13\<rparr>"
  by (simp add: includesCursor_def ex_valid ex_wrap ex_cols ex_lines)

section \<open>Ordering against a cursor\<close>

text \<open>
  C3. The claim reads the four operators as lexicographic by line, then column. The code
  takes the column test as a second disjunct without asking that the lines be equal:
  the first run of the example line (line 3, columns 0 to 5) is \<open>>\<close> and \<open>>=\<close> a cursor
  on line 5, column 3, and \<open><\<close> and \<open><=\<close> a cursor on line 1, column 7.
\<close>

theorem op_gt_earlier_line:
  "line ex_heap ex_run0 < cursor_line \<lparr>cursor_line = 5, cursor_column = 3\<rparr>
   \<and> op_gt ex_heap ex_run0 \<lparr>cursor_line = 5, cursor_column = 3\<rparr>
   \<and> op_ge ex_heap ex_run0 \<lparr>cursor_line = 5, cursor_column = 3\<rparr>
   \<and> cursor_line \<lparr>cursor_line = 1, cursor_column = 7\<rparr> < line ex_heap ex_run0
   \<and> op_lt ex_heap ex_run0 \<lparr>cursor_line = 1, cursor_column = 7\<rparr>
   \<and> op_le ex_heap ex_run0 \<lparr>cursor_line = 1, cursor_column = 7\<rparr>"
  by (simp add: op_gt_def op_ge_def op_lt_def op_le_def ex_lines ex_cols)

section \<open>The right edge\<close>

text \<open>
  C4. The claim reads \<open>endX() = startX() + width()\<close> whatever was called before. On the
  freshly constructed second run of the example line, \<open>endX()\<close> adds the width 20 to the
  field still holding -1 and returns 19, while \<open>startX()\<close> returns 9 and \<open>width()\<close>
  20; once \<open>startX()\<close> has been called, \<open>endX()\<close> returns 29.
\<close>

theorem endX_before_startX:
  "isValid ex_heap ex_run1 \<and> endX ex_heap ex_run1 = 19
   \<and> fst (startX ex_heap ex_run1) + width ex_heap ex_run1 = 29
   \<and> endX ex_heap (snd (startX ex_heap ex_run1)) = 29"
  by (simp add: ex_startX1 endX_def width_def ex_valid) (simp add: ex_run1_eq qreal_to_int_def)

section \<open>The wrap indent\<close>

text \<open>
  C7. On a valid layout \<open>xOffset()\<close> is the owner's \<open>shiftX()\<close> when \<open>startX()\<close> is
  non-zero and 0 when it is zero. A layout constructed on the first run of a line has,
  wherever it is valid, \<open>startX() = 0\<close> and so \<open>xOffset() = 0\<close>.
\<close>

theorem xOffset_shift_or_zero:
  "(isValid h t \<and> m_lineLayout t = Some a \<longrightarrow>
      fst (xOffset h t) = (if fst (startX h t) \<noteq> 0 then ll_shiftX (h a) else 0))
   \<and> (isValid h (KateTextLayout_new h0 p 0) \<longrightarrow>
        fst (startX h (KateTextLayout_new h0 p 0)) = 0
        \<and> fst (xOffset h (KateTextLayout_new h0 p 0)) = 0)"
proof -
  have "fst (xOffset h t) = (if fst (startX h t) \<noteq> 0 then ll_shiftX (h a) else 0)"
    if v: "isValid h t" and a: "m_lineLayout t = Some a"
    using startX_value [OF v a] v a
    by (simp add: xOffset_def deref_def Let_def split: prod.splits)
  moreover have "fst (startX h (KateTextLayout_new h0 p 0)) = 0
        \<and> fst (xOffset h (KateTextLayout_new h0 p 0)) = 0"
    if v: "isValid h (KateTextLayout_new h0 p 0)"
    using v by (simp add: xOffset_def startX_def new_fields Let_def split: prod.splits)
  ultimately show ?thesis by blast
qed

theorem xOffset_shift_or_zero_witness:
  "isValid ex_heap ex_run1 \<and> m_lineLayout ex_run1 = Some 0
   \<and> fst (xOffset ex_heap ex_run1) = 4
   \<and> isValid ex_heap (KateTextLayout_new ex_heap (Some 0) 0)
   \<and> fst (xOffset ex_heap (KateTextLayout_new ex_heap (Some 0) 0)) = 0"
proof -
  have p: "m_lineLayout ex_run1 = Some 0" by (simp add: ex_run1_eq)
  have s: "ll_shiftX (ex_heap 0) = 4" by (simp add: ex_heap_def ex_layout_def)
  have v0: "isValid ex_heap (KateTextLayout_new ex_heap (Some 0) 0)"
    using ex_valid(1) by (simp add: ex_run0_def)
  from xOffset_shift_or_zero [of ex_heap ex_run1 0 ex_heap "Some 0"] ex_valid(2) p s v0
  show ?thesis by (simp add: ex_startX1)
qed

section \<open>Stability of startX\<close>

text \<open>
  C8. A second call of \<open>startX()\<close> returns what the first returned and leaves the
  instance as the first left it, also when the \<open>shiftX()\<close> of a line layout in the
  store has been changed between the two calls.
\<close>

theorem startX_idempotent:
  "startX h (snd (startX h t)) = startX h t
   \<and> startX (h(a := (h a)\<lparr>ll_shiftX := s\<rparr>)) (snd (startX h t)) = startX h t"
proof (cases "isValid h t")
  case False
  then show ?thesis by (simp add: startX_def)
next
  case True
  then obtain b where b: "m_lineLayout t = Some b"
    using isValid_owner by blast
  let ?h = "h(a := (h a)\<lparr>ll_shiftX := s\<rparr>)"
  let ?w = "add_widths (- 1) (map naturalTextWidth (take (nat (m_viewLine t)) (ll_layout (h b))))"
  let ?x = "if m_startX t = - 1 then ?w else m_startX t"
  have first: "startX h t = (?x, t\<lparr>m_startX := ?x\<rparr>)"
    using startX_value [OF True b] by (simp add: Let_def)
  have v1: "isValid h (t\<lparr>m_startX := ?x\<rparr>)" "isValid ?h (t\<lparr>m_startX := ?x\<rparr>)"
    using True by simp_all
  have b1: "m_lineLayout (t\<lparr>m_startX := ?x\<rparr>) = Some b"
    using b by simp
  have "startX h (t\<lparr>m_startX := ?x\<rparr>) = (?x, t\<lparr>m_startX := ?x\<rparr>)"
    using startX_value [OF v1(1) b1] by (simp add: Let_def)
  moreover have "startX ?h (t\<lparr>m_startX := ?x\<rparr>) = (?x, t\<lparr>m_startX := ?x\<rparr>)"
    using startX_value [OF v1(2) b1] by (simp add: Let_def)
  ultimately show ?thesis by (simp add: first)
qed

theorem startX_idempotent_witness:
  "startX ex_heap (snd (startX ex_heap ex_run1)) = (9, ex_run1\<lparr>m_startX := 9\<rparr>)
   \<and> startX (ex_heap(0 := (ex_heap 0)\<lparr>ll_shiftX := 100\<rparr>)) (snd (startX ex_heap ex_run1))
       = (9, ex_run1\<lparr>m_startX := 9\<rparr>)"
  using startX_idempotent [of ex_heap ex_run1 0 100] by (simp add: ex_startX1)

section \<open>Frame\<close>

text \<open>
  C9. Whatever member is called, the owner pointer, the view-line index and the stored
  run of the instance stay; only \<open>startX\<close> and \<open>xOffset\<close> (which calls it) may change
  the instance, in its cached field. Only \<open>setDirty\<close> may change the store, and there
  nothing but the dirty flag of the addressed view line of the owner.
\<close>

theorem call_frame:
  assumes "call q h t = (r, h', t')"
  shows "m_lineLayout t' = m_lineLayout t \<and> m_viewLine t' = m_viewLine t
         \<and> m_textLayout t' = m_textLayout t
         \<and> (q \<notin> {Q_startX, Q_xOffset} \<longrightarrow> t' = t)
         \<and> (q \<notin> {Q_setDirty True, Q_setDirty False} \<longrightarrow> h' = h)
         \<and> (\<forall>b. m_lineLayout t \<noteq> Some b \<longrightarrow> h' b = h b)
         \<and> (\<forall>b. m_lineLayout t = Some b \<longrightarrow>
               h' b = (h b)\<lparr>ll_dirty := ll_dirty (h' b)\<rparr>
               \<and> (\<forall>k. k \<noteq> m_viewLine t \<longrightarrow> ll_dirty (h' b) k = ll_dirty (h b) k))"
proof (cases q)
  case (Q_setDirty d)
  with assms have "h' = snd (setDirty h t d)" "t' = t" by auto
  moreover have "q \<in> {Q_setDirty True, Q_setDirty False}" using Q_setDirty by (cases d) auto
  ultimately show ?thesis using Q_setDirty setDirty_frame [of t h d] by simp
next
  case Q_startX
  with assms have "h' = h" "t' = snd (startX h t)" by auto
  with Q_startX show ?thesis by (simp add: startX_fields)
next
  case Q_xOffset
  with assms have "h' = h" "t' = snd (startX h t)" by (auto simp: xOffset_instance)
  with Q_xOffset show ?thesis by (simp add: startX_fields)
qed (use assms in auto)

theorem call_frame_witness:
  "fst (snd (call Q_startX ex_heap ex_run1)) = ex_heap
   \<and> snd (snd (call Q_startX ex_heap ex_run1)) = ex_run1\<lparr>m_startX := 9\<rparr>
   \<and> snd (snd (call (Q_setDirty True) ex_heap ex_run1)) = ex_run1
   \<and> fst (snd (call (Q_setDirty True) ex_heap ex_run1)) 5 = ex_heap 5
   \<and> ll_dirty (fst (snd (call (Q_setDirty True) ex_heap ex_run1)) 0) 2 = ll_dirty (ex_heap 0) 2
   \<and> ll_dirty (fst (snd (call (Q_setDirty True) ex_heap ex_run1)) 0) 1"
proof -
  have c1: "call Q_startX ex_heap ex_run1 = (A_int 9, ex_heap, ex_run1\<lparr>m_startX := 9\<rparr>)"
    by (simp add: ex_startX1)
  have c2: "call (Q_setDirty True) ex_heap ex_run1
              = (A_bool False, ex_heap(0 := ex_layout\<lparr>ll_dirty := (\<lambda>i. False)(1 := True)\<rparr>), ex_run1)"
    by (simp add: ex_setDirty1)
  have p: "m_lineLayout ex_run1 = Some 0" "m_viewLine ex_run1 = 1" by (simp_all add: ex_run1_eq)
  have f1: "fst (snd (call Q_startX ex_heap ex_run1)) = ex_heap"
    using call_frame [OF c1] by simp
  have f2: "fst (snd (call (Q_setDirty True) ex_heap ex_run1)) 5 = ex_heap 5"
    "ll_dirty (fst (snd (call (Q_setDirty True) ex_heap ex_run1)) 0) 2 = ll_dirty (ex_heap 0) 2"
    "snd (snd (call (Q_setDirty True) ex_heap ex_run1)) = ex_run1"
    using call_frame [OF c2] p by (simp_all add: ex_setDirty1)
  from f1 f2 show ?thesis
    by (simp add: ex_startX1 ex_setDirty1)
qed

end
